theory Spec2Isabelle
  imports Complex_Main "HOL-Library.Sublist"
begin

text \<open>
  The import pipeline of the finance dash backend: the field parsers, the classifier and the
  normaliser of \<^verbatim>\<open>importers.py\<close>, the records of \<^verbatim>\<open>models.py\<close>, the transaction table and the
  cash summary of \<^verbatim>\<open>database.py\<close>, and \<^verbatim>\<open>import_workbook\<close> of \<^verbatim>\<open>services.py\<close>. Functions
  that can raise return a sum, with the exception on the left.
\<close>

section \<open>Python values used by the backend\<close>

text \<open>
  Python strings are modelled as \<^typ>\<open>string\<close>. The string methods below are those of
  \<^verbatim>\<open>str\<close> on ASCII text: \<^verbatim>\<open>lower\<close> and \<^verbatim>\<open>upper\<close> map the 26 letters, and
  \<^verbatim>\<open>strip\<close> removes the ASCII characters for which \<^verbatim>\<open>str.isspace\<close> holds
  (codes 9 to 13 and 28 to 32). Characters outside ASCII are left alone: the whitespace
  beyond ASCII that \<^verbatim>\<open>strip\<close> also removes (U+0085, U+00A0 and others) and the letters
  beyond ASCII are not modelled.
\<close>

definition whitespace_chars :: "char list" where
  "whitespace_chars =
     [CHR 0x09, CHR 0x0A, CHR 0x0B, CHR 0x0C, CHR 0x0D, CHR 0x1C, CHR 0x1D, CHR 0x1E, CHR 0x1F, CHR '' '']"

definition py_isspace :: "char \<Rightarrow> bool" where
  "py_isspace c = (c \<in> set whitespace_chars)"

definition py_isdigit :: "char \<Rightarrow> bool" where
  "py_isdigit c = (c \<in> set ''0123456789'')"

definition upper_letters :: string where
  "upper_letters = ''ABCDEFGHIJKLMNOPQRSTUVWXYZ''"

definition lower_letters :: string where
  "lower_letters = ''abcdefghijklmnopqrstuvwxyz''"

definition lower_char :: "char \<Rightarrow> char" where
  "lower_char c = (case map_of (zip upper_letters lower_letters) c of Some d \<Rightarrow> d | None \<Rightarrow> c)"

definition upper_char :: "char \<Rightarrow> char" where
  "upper_char c = (case map_of (zip lower_letters upper_letters) c of Some d \<Rightarrow> d | None \<Rightarrow> c)"

definition py_lower :: "string \<Rightarrow> string" where
  "py_lower s = map lower_char s"

definition py_upper :: "string \<Rightarrow> string" where
  "py_upper s = map upper_char s"

definition py_strip :: "string \<Rightarrow> string" where
  "py_strip s = rev (dropWhile py_isspace (rev (dropWhile py_isspace s)))"

text \<open>\<^verbatim>\<open>sub in s\<close>: \<open>sub\<close> occurs in \<open>s\<close> as a contiguous substring.\<close>

fun py_in :: "string \<Rightarrow> string \<Rightarrow> bool" where
  "py_in sub [] = (sub = [])"
| "py_in sub (c # cs) = (prefix sub (c # cs) \<or> py_in sub cs)"

text \<open>
  \<^verbatim>\<open>s.replace(old, new)\<close> for a non-empty \<open>old\<close>: the occurrences of \<open>old\<close> are replaced
  from left to right, without overlap. (The source only calls it with non-empty \<open>old\<close>;
  for an empty \<open>old\<close> the model returns \<open>s\<close>.)
\<close>

fun py_replace :: "string \<Rightarrow> string \<Rightarrow> string \<Rightarrow> string" where
  "py_replace old new [] = []"
| "py_replace old new (c # cs) =
     (if old \<noteq> [] \<and> prefix old (c # cs)
      then new @ py_replace old new (drop (length old - 1) cs)
      else c # py_replace old new cs)"

text \<open>\<^verbatim>\<open>s.split(",", 1)[0]\<close>: the text before the first comma, all of \<open>s\<close> when it has none.\<close>

definition split_first_comma :: "string \<Rightarrow> string" where
  "split_first_comma s = takeWhile (\<lambda>c. c \<noteq> CHR '','') s"

text \<open>The exceptions that the modelled code raises or catches.\<close>

datatype py_error =
    InvalidOperation
  | ValueError
  | OverflowError
  | ZeroDivisionError
  | TypeError

text \<open>
  A Python \<^verbatim>\<open>float\<close>. Finite values are kept as the exact rational they stand for:
  rounding to the nearest double, overflow to infinity and the sign of zero are not
  modelled. Infinities and NaN are values of their own, since they decide branches
  (NaN is truthy and compares false with everything).
\<close>

datatype pyfloat = Finite rat | PosInf | NegInf | NaN

definition float_truthy :: "pyfloat \<Rightarrow> bool" where
  "float_truthy x = (x \<noteq> Finite 0)"

text \<open>\<^verbatim>\<open>x or 0.0\<close> for an optional float: \<^verbatim>\<open>None\<close> and \<^verbatim>\<open>0.0\<close> are falsy.\<close>

definition or_zero :: "pyfloat option \<Rightarrow> pyfloat" where
  "or_zero x = (case x of None \<Rightarrow> Finite 0 | Some v \<Rightarrow> if float_truthy v then v else Finite 0)"

definition float_gt_zero :: "pyfloat \<Rightarrow> bool" where
  "float_gt_zero x = (case x of Finite q \<Rightarrow> 0 < q | PosInf \<Rightarrow> True | NegInf \<Rightarrow> False | NaN \<Rightarrow> False)"

definition float_eq_zero :: "pyfloat \<Rightarrow> bool" where
  "float_eq_zero x = (case x of Finite q \<Rightarrow> q = 0 | _ \<Rightarrow> False)"

definition float_neg :: "pyfloat \<Rightarrow> pyfloat" where
  "float_neg x = (case x of Finite q \<Rightarrow> Finite (- q) | PosInf \<Rightarrow> NegInf | NegInf \<Rightarrow> PosInf | NaN \<Rightarrow> NaN)"

fun float_add :: "pyfloat \<Rightarrow> pyfloat \<Rightarrow> pyfloat" where
  "float_add NaN _ = NaN"
| "float_add _ NaN = NaN"
| "float_add (Finite a) (Finite b) = Finite (a + b)"
| "float_add PosInf NegInf = NaN"
| "float_add NegInf PosInf = NaN"
| "float_add PosInf _ = PosInf"
| "float_add NegInf _ = NegInf"
| "float_add (Finite a) PosInf = PosInf"
| "float_add (Finite a) NegInf = NegInf"

definition float_sub :: "pyfloat \<Rightarrow> pyfloat \<Rightarrow> pyfloat" where
  "float_sub x y = float_add x (float_neg y)"

text \<open>The sign of a float that is neither zero nor NaN: \<open>True\<close> for negative.\<close>

definition float_negative :: "pyfloat \<Rightarrow> bool" where
  "float_negative x = (case x of Finite q \<Rightarrow> q < 0 | NegInf \<Rightarrow> True | _ \<Rightarrow> False)"

definition signed_inf :: "bool \<Rightarrow> pyfloat" where
  "signed_inf neg = (if neg then NegInf else PosInf)"

definition float_is_inf :: "pyfloat \<Rightarrow> bool" where
  "float_is_inf x = (x = PosInf \<or> x = NegInf)"

definition float_mul :: "pyfloat \<Rightarrow> pyfloat \<Rightarrow> pyfloat" where
  "float_mul x y =
     (case (x, y) of
        (Finite a, Finite b) \<Rightarrow> Finite (a * b)
      | _ \<Rightarrow> if x = NaN \<or> y = NaN \<or> x = Finite 0 \<or> y = Finite 0 then NaN
             else signed_inf (float_negative x \<noteq> float_negative y))"

text \<open>\<^verbatim>\<open>x / y\<close> on floats raises \<^verbatim>\<open>ZeroDivisionError\<close> for a zero divisor and nothing else.\<close>

definition float_truediv :: "pyfloat \<Rightarrow> pyfloat \<Rightarrow> py_error + pyfloat" where
  "float_truediv x y =
     (if y = Finite 0 then Inl ZeroDivisionError
      else Inr (case (x, y) of
                  (Finite a, Finite b) \<Rightarrow> Finite (a / b)
                | _ \<Rightarrow> if x = NaN \<or> y = NaN \<or> (float_is_inf x \<and> float_is_inf y) then NaN
                       else if float_is_inf y then Finite 0
                       else signed_inf (float_negative x \<noteq> float_negative y)))"

text \<open>
  What a cell of a data frame read with \<^verbatim>\<open>dtype=str\<close> holds: text, or the float NaN
  that pandas puts in a blank cell. \<^verbatim>\<open>str\<close> of the latter is \<^verbatim>\<open>"nan"\<close>.
\<close>

datatype cell = Text string | Blank

definition py_str :: "cell \<Rightarrow> string" where
  "py_str v = (case v of Text s \<Rightarrow> s | Blank \<Rightarrow> ''nan'')"

text \<open>A \<^verbatim>\<open>datetime.date\<close>.\<close>

record date =
  year :: nat
  month :: nat
  day :: nat

section \<open>models.py\<close>

type_synonym uuid = nat
type_synonym timestamp = nat
type_synonym payload = "(string \<times> string) list"

text \<open>
  \<^verbatim>\<open>BankTransactionRecord\<close>. The three account fields are annotated \<^verbatim>\<open>str\<close> but receive
  the cell as read, so they have the type of a cell. The field \<^verbatim>\<open>id\<close> is \<open>record_id\<close> here;
  a UUID is a number, and \<^verbatim>\<open>str\<close> of a UUID, being injective, is the UUID itself.
\<close>

record BankTransactionRecord =
  record_id :: uuid
  sheet_name :: string
  account_id :: cell
  account_name :: cell
  account_holder :: cell
  transaction_date :: "date option"
  transaction_time :: "string option"
  accounting_date :: "date option"
  amount_chf :: "pyfloat option"
  debit :: "pyfloat option"
  credit :: "pyfloat option"
  balance :: "pyfloat option"
  transaction_currency :: "string option"
  fx_rate :: "pyfloat option"
  description :: string
  transaction_number :: "string option"
  category :: "string option"
  sub_category :: "string option"
  micro_category :: "string option"
  raw_payload :: payload

definition signed_amount :: "BankTransactionRecord \<Rightarrow> pyfloat" where
  "signed_amount r =
     (case amount_chf r of
        Some a \<Rightarrow> a
      | None \<Rightarrow> (let d = or_zero (debit r); c = or_zero (credit r) in float_sub c d))"

text \<open>\<^verbatim>\<open>BankTransactionRecord()\<close> with the defaults of the dataclass and the given fresh UUID.\<close>

definition default_record :: "uuid \<Rightarrow> BankTransactionRecord" where
  "default_record u =
     \<lparr>record_id = u, sheet_name = [], account_id = Text [], account_name = Text [],
      account_holder = Text [], transaction_date = None, transaction_time = None,
      accounting_date = None, amount_chf = None, debit = None, credit = None, balance = None,
      transaction_currency = None, fx_rate = None, description = [],
      transaction_number = None, category = None, sub_category = None,
      micro_category = None, raw_payload = []\<rparr>"

text \<open>\<^verbatim>\<open>NormalisedTransaction\<close>; its fields carry the prefix \<open>n_\<close>.\<close>

record NormalisedTransaction =
  n_id :: uuid
  n_sheet_name :: string
  n_account_id :: cell
  n_account_name :: cell
  n_account_holder :: cell
  n_transaction_date :: "date option"
  n_transaction_time :: "string option"
  n_accounting_date :: "date option"
  n_transaction_currency :: string
  n_amount_chf :: pyfloat
  n_amount_native :: "pyfloat option"
  n_fx_rate :: "pyfloat option"
  n_balance :: "pyfloat option"
  n_description :: string
  n_transaction_number :: "string option"
  n_category :: "string option"
  n_sub_category :: "string option"
  n_micro_category :: "string option"
  n_inferred_type :: string
  n_inferred_counterparty :: "cell option"
  n_notes :: "string option"
  n_created_at :: timestamp

record FxRate =
  fx_base :: string
  fx_quote :: string
  fx_valuation_date :: date
  fx_rate_value :: pyfloat
  fx_source :: string

section \<open>importers.py: the classifier\<close>

text \<open>
  \<^verbatim>\<open>ClassificationResult\<close>; the field \<^verbatim>\<open>notes\<close> is \<open>c_notes\<close> here. The counterparty is
  an account name, which is a cell as read, or text taken from the description.
\<close>

record ClassificationResult =
  inferred_type :: string
  inferred_counterparty :: "cell option"
  c_notes :: "string option"

definition or_empty :: "string option \<Rightarrow> string" where
  "or_empty s = (case s of None \<Rightarrow> [] | Some t \<Rightarrow> t)"

definition is_inflow :: "BankTransactionRecord \<Rightarrow> bool" where
  "is_inflow r = (float_gt_zero (or_zero (credit r)) \<and> float_eq_zero (or_zero (debit r)))"

definition is_outflow :: "BankTransactionRecord \<Rightarrow> bool" where
  "is_outflow r = (float_gt_zero (or_zero (debit r)) \<and> float_eq_zero (or_zero (credit r)))"

definition extract_counterparty :: "BankTransactionRecord \<Rightarrow> cell option" where
  "extract_counterparty r =
     (if description r \<noteq> []
      then (let primary_segment = split_first_comma (description r);
                stripped = py_strip primary_segment
            in if stripped \<noteq> [] then Some (Text stripped) else None)
      else None)"

text \<open>
  The condition of the first \<^verbatim>\<open>if\<close> of \<^verbatim>\<open>classify\<close>. (The lower-cased sub-category
  that \<^verbatim>\<open>classify\<close> also computes is not used by it.)
\<close>

definition fee_rule :: "BankTransactionRecord \<Rightarrow> bool" where
  "fee_rule r =
     (let description' = py_lower (description r);
          category' = py_lower (or_empty (category r))
      in py_in ''frais'' description' \<or> py_in ''fee'' description' \<or> py_in ''frais'' category')"

definition classify :: "BankTransactionRecord \<Rightarrow> ClassificationResult" where
  "classify r =
     (if fee_rule r then
        \<lparr>inferred_type = ''FEE'', inferred_counterparty = Some (account_name r),
         c_notes = Some ''Identified bank fee''\<rparr>
      else if is_inflow r then
        \<lparr>inferred_type = ''DEPOSIT'', inferred_counterparty = extract_counterparty r,
         c_notes = None\<rparr>
      else if is_outflow r then
        \<lparr>inferred_type = ''WITHDRAWAL'', inferred_counterparty = extract_counterparty r,
         c_notes = None\<rparr>
      else
        \<lparr>inferred_type = ''UNKNOWN'', inferred_counterparty = None,
         c_notes = Some ''Unable to infer direction''\<rparr>)"

section \<open>importers.py: the normaliser\<close>

text \<open>
  The first statement of \<^verbatim>\<open>_normalise_record\<close>: the native amount. The division is
  inside a \<^verbatim>\<open>try\<close> that catches \<^verbatim>\<open>ZeroDivisionError\<close> only.
\<close>

definition amount_native_of :: "BankTransactionRecord \<Rightarrow> py_error + pyfloat option" where
  "amount_native_of r =
     (case transaction_currency r of
        None \<Rightarrow> Inr None
      | Some cur \<Rightarrow>
          if cur \<noteq> [] \<and> py_upper cur \<noteq> ''CHF'' then
            (case fx_rate r of
               None \<Rightarrow> Inr None
             | Some f \<Rightarrow>
                 if float_truthy f then
                   (case float_truediv (signed_amount r) f of
                      Inr v \<Rightarrow> Inr (Some v)
                    | Inl e \<Rightarrow> if e = ZeroDivisionError then Inr None else Inl e)
                 else Inr None)
          else Inr None)"

text \<open>\<^verbatim>\<open>record.transaction_currency or "CHF"\<close>.\<close>

definition currency_or_chf :: "string option \<Rightarrow> string" where
  "currency_or_chf c = (case c of None \<Rightarrow> ''CHF'' | Some cur \<Rightarrow> if cur \<noteq> [] then cur else ''CHF'')"

text \<open>
  \<^verbatim>\<open>_normalise_record\<close>. The creation timestamp is the default of the dataclass,
  \<^verbatim>\<open>datetime.utcnow()\<close> at construction: the clock reading \<open>now\<close> is an argument.
\<close>

definition normalise_record ::
  "timestamp \<Rightarrow> BankTransactionRecord \<Rightarrow> ClassificationResult \<Rightarrow> py_error + NormalisedTransaction" where
  "normalise_record now r classification =
     (case amount_native_of r of
        Inl e \<Rightarrow> Inl e
      | Inr amount_native \<Rightarrow>
          Inr \<lparr>n_id = record_id r,
               n_sheet_name = sheet_name r,
               n_account_id = account_id r,
               n_account_name = account_name r,
               n_account_holder = account_holder r,
               n_transaction_date = transaction_date r,
               n_transaction_time = transaction_time r,
               n_accounting_date = accounting_date r,
               n_transaction_currency = currency_or_chf (transaction_currency r),
               n_amount_chf = signed_amount r,
               n_amount_native = amount_native,
               n_fx_rate = fx_rate r,
               n_balance = balance r,
               n_description = description r,
               n_transaction_number = transaction_number r,
               n_category = category r,
               n_sub_category = sub_category r,
               n_micro_category = micro_category r,
               n_inferred_type = inferred_type classification,
               n_inferred_counterparty = inferred_counterparty classification,
               n_notes = c_notes classification,
               n_created_at = now\<rparr>)"

section \<open>importers.py: the field parsers\<close>

text \<open>\<^verbatim>\<open>row.get(key)\<close> gives \<^verbatim>\<open>None\<close> for a missing column, so a parser's argument is optional.\<close>

definition clean_string :: "cell option \<Rightarrow> string" where
  "clean_string value = (case value of None \<Rightarrow> [] | Some v \<Rightarrow> py_strip (py_str v))"

subsection \<open>The numeric strings of \<^verbatim>\<open>decimal.Decimal\<close>\<close>

text \<open>
  \<^verbatim>\<open>Decimal(s)\<close> follows the grammar of the \<^verbatim>\<open>decimal\<close> module: surrounding whitespace
  and all underscores are dropped, case is ignored, and what remains is an optional sign
  followed by \<^verbatim>\<open>Inf\<close>, \<^verbatim>\<open>Infinity\<close>, \<^verbatim>\<open>NaN\<close> or \<^verbatim>\<open>sNaN\<close> with optional digits, or a
  number with at least one digit, an optional fraction and an optional exponent. Anything
  else raises \<^verbatim>\<open>InvalidOperation\<close>. The sign is \<open>True\<close> for negative.
\<close>

datatype decimal = DecFinite bool nat int | DecInf bool | DecNaN bool | DecSNaN bool

definition digit_value :: "char \<Rightarrow> nat" where
  "digit_value c = (case map_of (zip ''0123456789'' [0, 1, 2, 3, 4, 5, 6, 7, 8, 9]) c of
                      Some d \<Rightarrow> d | None \<Rightarrow> 0)"

definition digits_value :: "string \<Rightarrow> nat" where
  "digits_value ds = foldl (\<lambda>acc c. 10 * acc + digit_value c) 0 ds"

definition take_sign :: "string \<Rightarrow> bool \<times> string" where
  "take_sign s =
     (case s of
        [] \<Rightarrow> (False, [])
      | c # cs \<Rightarrow> if c = CHR ''-'' then (True, cs) else if c = CHR ''+'' then (False, cs)
                  else (False, s))"

text \<open>What follows the mantissa: nothing, or \<^verbatim>\<open>e\<close>, an optional sign and digits.\<close>

definition parse_exponent :: "string \<Rightarrow> int option" where
  "parse_exponent s =
     (case s of
        [] \<Rightarrow> Some 0
      | c # cs \<Rightarrow>
          if c = CHR ''e'' then
            (case take_sign cs of
               (neg, ds) \<Rightarrow>
                 if ds \<noteq> [] \<and> list_all py_isdigit ds
                 then Some (if neg then - int (digits_value ds) else int (digits_value ds))
                 else None)
          else None)"

text \<open>The coefficient and the exponent of an unsigned number.\<close>

definition parse_number :: "string \<Rightarrow> (nat \<times> int) option" where
  "parse_number s =
     (let ip = takeWhile py_isdigit s;
          r1 = dropWhile py_isdigit s;
          fp = (case r1 of [] \<Rightarrow> [] | c # cs \<Rightarrow> if c = CHR ''.'' then takeWhile py_isdigit cs else []);
          r2 = (case r1 of [] \<Rightarrow> [] | c # cs \<Rightarrow> if c = CHR ''.'' then dropWhile py_isdigit cs else r1)
      in if ip = [] \<and> fp = [] then None
         else (case parse_exponent r2 of
                 None \<Rightarrow> None
               | Some e \<Rightarrow> Some (digits_value (ip @ fp), e - int (length fp))))"

definition Decimal :: "string \<Rightarrow> py_error + decimal" where
  "Decimal value =
     (case take_sign (py_lower (filter (\<lambda>c. c \<noteq> CHR ''_'') (py_strip value))) of
        (neg, body) \<Rightarrow>
          if body = ''inf'' \<or> body = ''infinity'' then Inr (DecInf neg)
          else if prefix ''nan'' body \<and> list_all py_isdigit (drop 3 body) then Inr (DecNaN neg)
          else if prefix ''snan'' body \<and> list_all py_isdigit (drop 4 body) then Inr (DecSNaN neg)
          else (case parse_number body of
                  None \<Rightarrow> Inl InvalidOperation
                | Some (c, e) \<Rightarrow> Inr (DecFinite neg c e)))"

text \<open>\<^verbatim>\<open>float(d)\<close> for a decimal: a signalling NaN raises \<^verbatim>\<open>ValueError\<close>.\<close>

definition float_of_decimal :: "decimal \<Rightarrow> py_error + pyfloat" where
  "float_of_decimal d =
     (case d of
        DecSNaN neg \<Rightarrow> Inl ValueError
      | DecNaN neg \<Rightarrow> Inr NaN
      | DecInf neg \<Rightarrow> Inr (signed_inf neg)
      | DecFinite neg c e \<Rightarrow>
          Inr (Finite ((if neg then - 1 else 1) * of_nat c *
                       (if 0 \<le> e then 10 ^ nat e else 1 / 10 ^ nat (- e)))))"

subsection \<open>\<^verbatim>\<open>_parse_decimal\<close>\<close>

text \<open>The three \<^verbatim>\<open>replace\<close> calls: apostrophes and spaces go, a comma becomes a point.\<close>

definition normalise_separators :: "string \<Rightarrow> string" where
  "normalise_separators stringified =
     py_replace '','' ''.'' (py_replace '' '' [] (py_replace [CHR 0x27] [] stringified))"

text \<open>
  The \<^verbatim>\<open>try\<close> catches \<^verbatim>\<open>InvalidOperation\<close> and \<^verbatim>\<open>ValueError\<close>; any other exception
  would leave the function.
\<close>

definition parse_decimal :: "cell option \<Rightarrow> py_error + pyfloat option" where
  "parse_decimal value =
     (case value of
        None \<Rightarrow> Inr None
      | Some v \<Rightarrow>
          (let stringified = py_strip (py_str v) in
           if stringified = [] then Inr None
           else (let normalised = normalise_separators stringified in
                 case (case Decimal normalised of Inl e \<Rightarrow> Inl e | Inr d \<Rightarrow> float_of_decimal d) of
                   Inr x \<Rightarrow> Inr (Some x)
                 | Inl e \<Rightarrow> if e = InvalidOperation \<or> e = ValueError then Inr None else Inl e)))"

subsection \<open>\<^verbatim>\<open>_parse_date\<close>\<close>

text \<open>
  \<^verbatim>\<open>dateutil.parser.parse\<close> is a library outside the repository: it is the argument
  \<open>date_parser_parse\<close>, applied to the \<^verbatim>\<open>dayfirst\<close> flag and the string, returning a
  \<^verbatim>\<open>datetime\<close> or raising.
\<close>

record datetime =
  dt_date :: date
  dt_seconds :: nat

type_synonym date_parser = "bool \<Rightarrow> string \<Rightarrow> py_error + datetime"

definition parse_date :: "date_parser \<Rightarrow> cell option \<Rightarrow> py_error + date option" where
  "parse_date date_parser_parse value =
     (case value of
        None \<Rightarrow> Inr None
      | Some v \<Rightarrow>
          (let stringified = py_strip (py_str v) in
           if stringified = [] \<or> stringified \<in> {''NaT'', ''nan''} then Inr None
           else (let stringified' = py_replace ''[$]'' [] stringified in
                 case date_parser_parse True stringified' of
                   Inr parsed \<Rightarrow> Inr (Some (dt_date parsed))
                 | Inl e \<Rightarrow> if e = ValueError \<or> e = OverflowError then Inr None else Inl e)))"

text \<open>
  The library documents two exceptions for a string argument, \<^verbatim>\<open>ParserError\<close> (a
  \<^verbatim>\<open>ValueError\<close>) and \<^verbatim>\<open>OverflowError\<close>. A parser keeps to that contract when it
  raises nothing else.
\<close>

definition documented_errors_only :: "date_parser \<Rightarrow> bool" where
  "documented_errors_only date_parser_parse =
     (\<forall>s e. date_parser_parse True s = Inl e \<longrightarrow> e = ValueError \<or> e = OverflowError)"

subsection \<open>\<^verbatim>\<open>_collapse_description\<close>\<close>

text \<open>
  A row of a data frame: the cell of each column, in column order. \<^verbatim>\<open>row.get(key)\<close> is
  \<open>map_of row key\<close>. The column names of a sheet are taken to differ from each other once
  stripped; with two equal names \<^verbatim>\<open>row.get\<close> would return both cells.
\<close>

type_synonym row = "(string \<times> cell) list"

fun py_join :: "string \<Rightarrow> string list \<Rightarrow> string" where
  "py_join sep [] = []"
| "py_join sep [x] = x"
| "py_join sep (x # y # ys) = x @ sep @ py_join sep (y # ys)"

definition collapse_description :: "row \<Rightarrow> string" where
  "collapse_description row =
     (let parts = [clean_string (map_of row ''descr_1''),
                   clean_string (map_of row ''descr_2''),
                   clean_string (map_of row ''descr_3'')]
      in py_join '', '' (filter (\<lambda>part. part \<noteq> []) parts))"

section \<open>importers.py: extraction and the import loop\<close>

text \<open>Raising inside an expression leaves the enclosing function: errors are threaded.\<close>

definition bind_result :: "'e + 'a \<Rightarrow> ('a \<Rightarrow> 'e + 'b) \<Rightarrow> 'e + 'b" where
  "bind_result m f = (case m of Inl e \<Rightarrow> Inl e | Inr x \<Rightarrow> f x)"

text \<open>\<^verbatim>\<open>row.get(key, "")\<close>.\<close>

definition row_get_default :: "row \<Rightarrow> string \<Rightarrow> cell" where
  "row_get_default row key = (case map_of row key of None \<Rightarrow> Text [] | Some c \<Rightarrow> c)"

text \<open>\<^verbatim>\<open>row.fillna("").to_dict()\<close>.\<close>

definition fillna_to_dict :: "row \<Rightarrow> payload" where
  "fillna_to_dict row = map (\<lambda>(k, c). (k, case c of Blank \<Rightarrow> [] | Text t \<Rightarrow> t)) row"

text \<open>
  The body of the loop of \<^verbatim>\<open>_iter_records\<close>. The identifier is the default of the
  dataclass, \<^verbatim>\<open>uuid4()\<close> at construction: the value drawn is the argument \<open>fresh_id\<close>.
\<close>

definition make_record ::
  "date_parser \<Rightarrow> uuid \<Rightarrow> string \<Rightarrow> row \<Rightarrow> py_error + BankTransactionRecord" where
  "make_record date_parser_parse fresh_id sheet row =
     (let payload' = fillna_to_dict row in
      bind_result (parse_date date_parser_parse (map_of row ''transac_date'')) (\<lambda>transaction_date'.
      bind_result (parse_date date_parser_parse (map_of row ''accounting_date'')) (\<lambda>accounting_date'.
      bind_result (parse_decimal (map_of row ''amount_chf'')) (\<lambda>amount_chf'.
      bind_result (parse_decimal (map_of row ''debit'')) (\<lambda>debit'.
      bind_result (parse_decimal (map_of row ''credit'')) (\<lambda>credit'.
      bind_result (parse_decimal (map_of row ''balance'')) (\<lambda>balance'.
      bind_result (parse_decimal (map_of row ''rate'')) (\<lambda>fx_rate'.
        Inr \<lparr>record_id = fresh_id,
             sheet_name = sheet,
             account_id = row_get_default row ''account_id'',
             account_name = row_get_default row ''account_name'',
             account_holder = row_get_default row ''account_holder'',
             transaction_date = transaction_date',
             transaction_time = Some (clean_string (map_of row ''transac_hour'')),
             accounting_date = accounting_date',
             amount_chf = amount_chf',
             debit = debit',
             credit = credit',
             balance = balance',
             transaction_currency =
               Some (let c = clean_string (map_of row ''transac_currency'')
                     in if c \<noteq> [] then c else ''CHF''),
             fx_rate = fx_rate',
             description = collapse_description row,
             transaction_number = Some (clean_string (map_of row ''transac_nbr'')),
             category = Some (clean_string (map_of row ''category'')),
             sub_category = Some (clean_string (map_of row ''sub_category'')),
             micro_category = Some (clean_string (map_of row ''micro_category'')),
             raw_payload = payload'\<rparr>))))))))"

text \<open>
  What the process draws from outside: the values \<^verbatim>\<open>uuid4()\<close> returns, the readings of
  \<^verbatim>\<open>datetime.utcnow()\<close>, both in the order of the rows extracted since the process
  started, and the date parsing library.
\<close>

record world =
  w_uuid4 :: "nat \<Rightarrow> uuid"
  w_utcnow :: "nat \<Rightarrow> timestamp"
  w_date_parser :: date_parser

text \<open>
  A workbook: its sheets by name, each a list of rows. \<^verbatim>\<open>_load_sheet\<close> raises
  \<^verbatim>\<open>ValueError\<close> for a sheet that the workbook does not have, and strips the column names.
\<close>

type_synonym workbook = "(string \<times> row list) list"

definition load_sheet :: "workbook \<Rightarrow> string \<Rightarrow> py_error + row list" where
  "load_sheet wb sheet =
     (case map_of wb sheet of
        None \<Rightarrow> Inl ValueError
      | Some dataframe \<Rightarrow> Inr (map (map (\<lambda>(column, c). (py_strip column, c))) dataframe))"

text \<open>
  The inner loop of \<^verbatim>\<open>load\<close> over the rows of one sheet. The accumulator holds the
  transactions, the raw lookup and the number of rows extracted so far by the process.
\<close>

type_synonym load_acc = "NormalisedTransaction list \<times> (uuid \<rightharpoonup> payload) \<times> nat"

fun load_rows :: "world \<Rightarrow> string \<Rightarrow> row list \<Rightarrow> load_acc \<Rightarrow> py_error + load_acc" where
  "load_rows w sheet [] acc = Inr acc"
| "load_rows w sheet (row # rows) (transactions, raw_lookup, k) =
     (case make_record (w_date_parser w) (w_uuid4 w k) sheet row of
        Inl e \<Rightarrow> Inl e
      | Inr record \<Rightarrow>
          (case normalise_record (w_utcnow w k) record (classify record) of
             Inl e \<Rightarrow> Inl e
           | Inr normalised \<Rightarrow>
               load_rows w sheet rows
                 (transactions @ [normalised],
                  raw_lookup(record_id record \<mapsto> raw_payload record),
                  Suc k)))"

fun load_sheets :: "world \<Rightarrow> workbook \<Rightarrow> string list \<Rightarrow> load_acc \<Rightarrow> py_error + load_acc" where
  "load_sheets w wb [] acc = Inr acc"
| "load_sheets w wb (sheet # sheets) acc =
     (case load_sheet wb sheet of
        Inl e \<Rightarrow> Inl e
      | Inr dataframe \<Rightarrow>
          (case load_rows w sheet dataframe acc of
             Inl e \<Rightarrow> Inl e
           | Inr acc' \<Rightarrow> load_sheets w wb sheets acc'))"

definition load :: "world \<Rightarrow> workbook \<Rightarrow> string list \<Rightarrow> nat \<Rightarrow> py_error + load_acc" where
  "load w wb sheet_names k = load_sheets w wb sheet_names ([], Map.empty, k)"

section \<open>database.py\<close>

text \<open>
  A row of the table \<^verbatim>\<open>transactions\<close>, holding what SQLite keeps of the bound values:
  a float NaN is stored as \<^verbatim>\<open>NULL\<close>. Dates stand for their ISO text and the payload for
  its JSON text. The columns \<^verbatim>\<open>debit\<close> and \<^verbatim>\<open>credit\<close> receive the raw text of the
  payload; the row keeps that text as bound, where the \<^verbatim>\<open>REAL\<close> affinity of the two columns
  would store text that reads as a number as that number.
\<close>

record tx_row =
  t_id :: uuid
  t_sheet_name :: string
  t_account_id :: "string option"
  t_account_name :: "string option"
  t_account_holder :: "string option"
  t_transaction_date :: "date option"
  t_transaction_time :: "string option"
  t_accounting_date :: "date option"
  t_transaction_currency :: string
  t_amount_chf :: "pyfloat option"
  t_amount_native :: "pyfloat option"
  t_fx_rate :: "pyfloat option"
  t_debit :: "string option"
  t_credit :: "string option"
  t_balance :: "pyfloat option"
  t_description :: string
  t_transaction_number :: "string option"
  t_category :: "string option"
  t_sub_category :: "string option"
  t_micro_category :: "string option"
  t_inferred_type :: string
  t_inferred_counterparty :: "string option"
  t_notes :: "string option"
  t_raw_payload :: payload
  t_created_at :: timestamp

record fx_row =
  f_base :: string
  f_quote :: string
  f_valuation_date :: date
  f_rate :: pyfloat
  f_source :: string

text \<open>The tables that the modelled methods read or write.\<close>

record database =
  transactions :: "tx_row list"
  fx_rates :: "fx_row list"

text \<open>\<^verbatim>\<open>initialise_schema\<close> on a new file: every table exists and is empty.\<close>

definition initial_database :: database where
  "initial_database = \<lparr>transactions = [], fx_rates = []\<rparr>"

definition sql_real :: "pyfloat \<Rightarrow> pyfloat option" where
  "sql_real x = (if x = NaN then None else Some x)"

definition sql_text :: "cell \<Rightarrow> string option" where
  "sql_text c = (case c of Blank \<Rightarrow> None | Text t \<Rightarrow> Some t)"

text \<open>The dictionary of parameters that \<^verbatim>\<open>upsert_transactions\<close> binds for one transaction.\<close>

definition bound_row :: "NormalisedTransaction \<Rightarrow> payload \<Rightarrow> tx_row" where
  "bound_row tx payload' =
     \<lparr>t_id = n_id tx,
      t_sheet_name = n_sheet_name tx,
      t_account_id = sql_text (n_account_id tx),
      t_account_name = sql_text (n_account_name tx),
      t_account_holder = sql_text (n_account_holder tx),
      t_transaction_date = n_transaction_date tx,
      t_transaction_time = n_transaction_time tx,
      t_accounting_date = n_accounting_date tx,
      t_transaction_currency = n_transaction_currency tx,
      t_amount_chf = sql_real (n_amount_chf tx),
      t_amount_native = Option.bind (n_amount_native tx) sql_real,
      t_fx_rate = Option.bind (n_fx_rate tx) sql_real,
      t_debit = map_of payload' ''debit'',
      t_credit = map_of payload' ''credit'',
      t_balance = Option.bind (n_balance tx) sql_real,
      t_description = n_description tx,
      t_transaction_number = n_transaction_number tx,
      t_category = n_category tx,
      t_sub_category = n_sub_category tx,
      t_micro_category = n_micro_category tx,
      t_inferred_type = n_inferred_type tx,
      t_inferred_counterparty = Option.bind (n_inferred_counterparty tx) sql_text,
      t_notes = n_notes tx,
      t_raw_payload = payload',
      t_created_at = n_created_at tx\<rparr>"

text \<open>The \<^verbatim>\<open>SET\<close> list of \<^verbatim>\<open>ON CONFLICT(id) DO UPDATE\<close>: every column but \<^verbatim>\<open>id\<close>.\<close>

definition do_update_set :: "tx_row \<Rightarrow> tx_row \<Rightarrow> tx_row" where
  "do_update_set old excluded =
     old\<lparr>t_sheet_name := t_sheet_name excluded,
         t_account_id := t_account_id excluded,
         t_account_name := t_account_name excluded,
         t_account_holder := t_account_holder excluded,
         t_transaction_date := t_transaction_date excluded,
         t_transaction_time := t_transaction_time excluded,
         t_accounting_date := t_accounting_date excluded,
         t_transaction_currency := t_transaction_currency excluded,
         t_amount_chf := t_amount_chf excluded,
         t_amount_native := t_amount_native excluded,
         t_fx_rate := t_fx_rate excluded,
         t_debit := t_debit excluded,
         t_credit := t_credit excluded,
         t_balance := t_balance excluded,
         t_description := t_description excluded,
         t_transaction_number := t_transaction_number excluded,
         t_category := t_category excluded,
         t_sub_category := t_sub_category excluded,
         t_micro_category := t_micro_category excluded,
         t_inferred_type := t_inferred_type excluded,
         t_inferred_counterparty := t_inferred_counterparty excluded,
         t_notes := t_notes excluded,
         t_raw_payload := t_raw_payload excluded,
         t_created_at := t_created_at excluded\<rparr>"

text \<open>
  \<^verbatim>\<open>INSERT INTO transactions ... ON CONFLICT(id) DO UPDATE SET ...\<close>: a row whose \<^verbatim>\<open>id\<close>
  is in the table updates the rows with that \<^verbatim>\<open>id\<close>, any other row is appended.
\<close>

definition insert_on_conflict_update :: "tx_row \<Rightarrow> tx_row list \<Rightarrow> tx_row list" where
  "insert_on_conflict_update new table =
     (if list_ex (\<lambda>old. t_id old = t_id new) table
      then map (\<lambda>old. if t_id old = t_id new then do_update_set old new else old) table
      else table @ [new])"

text \<open>\<^verbatim>\<open>raw_lookup.get(str(tx.id), {})\<close>.\<close>

definition lookup_payload :: "(uuid \<rightharpoonup> payload) \<Rightarrow> uuid \<Rightarrow> payload" where
  "lookup_payload raw_lookup key = (case raw_lookup key of None \<Rightarrow> [] | Some p \<Rightarrow> p)"

fun upsert_transactions ::
  "NormalisedTransaction list \<Rightarrow> (uuid \<rightharpoonup> payload) \<Rightarrow> database \<Rightarrow> database" where
  "upsert_transactions [] raw_lookup db = db"
| "upsert_transactions (tx # txs) raw_lookup db =
     upsert_transactions txs raw_lookup
       (db\<lparr>transactions :=
             insert_on_conflict_update (bound_row tx (lookup_payload raw_lookup (n_id tx)))
               (transactions db)\<rparr>)"

text \<open>
  Valuation dates are ISO text in the table, and \<^verbatim>\<open>date()\<close> of SQLite keeps such text, so
  the order of \<^verbatim>\<open>ORDER BY date(valuation_date)\<close> is the order of the calendar.
\<close>

definition date_le :: "date \<Rightarrow> date \<Rightarrow> bool" where
  "date_le a b =
     (year a < year b \<or>
      (year a = year b \<and> (month a < month b \<or> (month a = month b \<and> day a \<le> day b))))"

text \<open>
  \<^verbatim>\<open>ORDER BY date(valuation_date) DESC LIMIT 1\<close>: a row with the latest date. Among rows
  of the same date SQL leaves the choice open; the model takes the first in table order.
\<close>

fun latest_row :: "fx_row list \<Rightarrow> fx_row option" where
  "latest_row [] = None"
| "latest_row (r # rs) =
     (case latest_row rs of
        None \<Rightarrow> Some r
      | Some b \<Rightarrow> if date_le (f_valuation_date b) (f_valuation_date r) then Some r else Some b)"

definition get_latest_fx_rate :: "database \<Rightarrow> string \<Rightarrow> string \<Rightarrow> pyfloat option" where
  "get_latest_fx_rate db base quote =
     (case latest_row (filter (\<lambda>r. f_base r = py_upper base \<and> f_quote r = py_upper quote)
                         (fx_rates db)) of
        None \<Rightarrow> None
      | Some r \<Rightarrow> Some (f_rate r))"

text \<open>
  \<^verbatim>\<open>COALESCE(SUM(amount_chf), 0.0)\<close>: the sum skips \<^verbatim>\<open>NULL\<close> and is \<^verbatim>\<open>NULL\<close> without a value;
  a sum that is NaN (both infinities stored) comes back as \<^verbatim>\<open>NULL\<close> as well.
\<close>

definition sql_sum :: "pyfloat option list \<Rightarrow> pyfloat option" where
  "sql_sum xs =
     (case List.map_filter (\<lambda>x. x) xs of
        [] \<Rightarrow> None
      | v # vs \<Rightarrow> sql_real (foldl float_add v vs))"

definition total_chf_of :: "database \<Rightarrow> pyfloat" where
  "total_chf_of db =
     (case sql_sum (map t_amount_chf (transactions db)) of None \<Rightarrow> Finite 0 | Some x \<Rightarrow> x)"

text \<open>The dictionary that \<^verbatim>\<open>cash_summary\<close> returns; the key \<^verbatim>\<open>fx_rate\<close> may be missing.\<close>

record summary =
  s_total_chf :: pyfloat
  s_transaction_count :: nat
  s_display_currency :: string
  s_display_total :: pyfloat
  s_fx_missing :: bool
  s_fx_rate :: "pyfloat option"

definition cash_summary :: "database \<Rightarrow> string \<Rightarrow> summary" where
  "cash_summary db display_currency =
     (let total_chf = total_chf_of db;
          transaction_count = length (transactions db)
      in if py_upper display_currency = ''CHF'' then
           \<lparr>s_total_chf = total_chf, s_transaction_count = transaction_count,
            s_display_currency = ''CHF'', s_display_total = total_chf,
            s_fx_missing = False, s_fx_rate = None\<rparr>
         else
           (case get_latest_fx_rate db ''CHF'' (py_upper display_currency) of
              None \<Rightarrow>
                \<lparr>s_total_chf = total_chf, s_transaction_count = transaction_count,
                 s_display_currency = py_upper display_currency, s_display_total = total_chf,
                 s_fx_missing = True, s_fx_rate = None\<rparr>
            | Some rate \<Rightarrow>
                \<lparr>s_total_chf = total_chf, s_transaction_count = transaction_count,
                 s_display_currency = py_upper display_currency,
                 s_display_total = float_mul total_chf rate,
                 s_fx_missing = False, s_fx_rate = Some rate\<rparr>))"

section \<open>services.py\<close>

text \<open>
  What lives as long as the process: the repository and the number of rows extracted so far.
  \<^verbatim>\<open>import_workbook\<close> returns the number of transactions persisted; an exception of the
  importer leaves the repository untouched.
\<close>

record app_state =
  repository :: database
  extracted :: nat

definition import_workbook ::
  "world \<Rightarrow> workbook \<Rightarrow> string list \<Rightarrow> app_state \<Rightarrow> py_error + (nat \<times> app_state)" where
  "import_workbook w data_file sheet_names st =
     (case load w data_file sheet_names (extracted st) of
        Inl e \<Rightarrow> Inl e
      | Inr (transactions', raw_lookup, k) \<Rightarrow>
          Inr (length transactions',
               \<lparr>repository = upsert_transactions transactions' raw_lookup (repository st),
                extracted = k\<rparr>))"

section \<open>Example inputs\<close>

text \<open>A fee that is credited, and a deposit whose description starts with a comma.\<close>

definition fee_row :: BankTransactionRecord where
  "fee_row = (default_record 1)\<lparr>description := ''Bank Fee, March'', credit := Some (Finite 5)\<rparr>"

definition blank_deposit_row :: BankTransactionRecord where
  "blank_deposit_row = (default_record 2)\<lparr>description := '' , refund'', credit := Some (Finite 5)\<rparr>"

text \<open>A deposit whose category, and not its description, contains \<^verbatim>\<open>fee\<close>.\<close>

definition fees_category_row :: BankTransactionRecord where
  "fees_category_row = (default_record 5)\<lparr>description := ''Payment'',
     category := Some ''Fees'', credit := Some (Finite 5)\<rparr>"



text \<open>
  A parser for the strings \<^verbatim>\<open>DD.MM.YYYY\<close> (or \<^verbatim>\<open>MM.DD.YYYY\<close> without \<^verbatim>\<open>dayfirst\<close>) that
  raises \<^verbatim>\<open>ValueError\<close> on anything else. It stands for the library in the examples.
\<close>

definition example_date_parser :: date_parser where
  "example_date_parser dayfirst s =
     (if length s = 10 \<and> take 1 (drop 2 s) = ''.'' \<and> take 1 (drop 5 s) = ''.'' \<and>
         list_all py_isdigit (take 2 s @ take 2 (drop 3 s) @ drop 6 s)
      then (let a = digits_value (take 2 s);
                b = digits_value (take 2 (drop 3 s));
                y = digits_value (drop 6 s);
                d = (if dayfirst then a else b);
                m = (if dayfirst then b else a)
            in if 1 \<le> m \<and> m \<le> 12 \<and> 1 \<le> d \<and> d \<le> 31
               then Inr \<lparr>dt_date = \<lparr>year = y, month = m, day = d\<rparr>, dt_seconds = 0\<rparr>
               else Inl ValueError)
      else Inl ValueError)"

text \<open>A process whose UUIDs are consecutive numbers and whose clock ticks once per row.\<close>

definition example_world :: world where
  "example_world =
     \<lparr>w_uuid4 = (\<lambda>k. 0x123e4567e89b42d3a456426614174000 + k),
      w_utcnow = (\<lambda>k. 1700000000 + k),
      w_date_parser = example_date_parser\<rparr>"

text \<open>A workbook with one sheet of one row.\<close>

definition example_row :: row where
  "example_row =
     [(''account_id'', Text ''CH01''), (''account_name'', Text ''Main''),
      (''account_holder'', Text ''A. Muster''), (''transac_date'', Text ''03.04.2024''),
      (''accounting_date'', Text ''04.04.2024''), (''debit'', Text ''0''),
      (''credit'', Text ''120.50''), (''transac_currency'', Text ''CHF''),
      (''descr_1'', Text ''Salary''), (''descr_2'', Text ''April'')]"

definition example_workbook :: workbook where
  "example_workbook = [(''stocks_transac'', [example_row])]"

text \<open>The number of rows of the requested sheets.\<close>

definition rows_of :: "workbook \<Rightarrow> string list \<Rightarrow> nat" where
  "rows_of wb sheets =
     sum_list (map (\<lambda>sheet. case map_of wb sheet of None \<Rightarrow> 0 | Some rows \<Rightarrow> length rows) sheets)"

text \<open>A normalised deposit of 100 francs with identifier 7, stamped at the given time.\<close>

definition example_tx :: "timestamp \<Rightarrow> NormalisedTransaction" where
  "example_tx now =
     \<lparr>n_id = 7, n_sheet_name = ''stocks_transac'', n_account_id = Text ''CH01'',
      n_account_name = Text ''Main'', n_account_holder = Text ''A. Muster'',
      n_transaction_date = Some \<lparr>year = 2024, month = 4, day = 3\<rparr>,
      n_transaction_time = Some [], n_accounting_date = None,
      n_transaction_currency = ''CHF'', n_amount_chf = Finite 100, n_amount_native = None,
      n_fx_rate = None, n_balance = None, n_description = ''Salary'',
      n_transaction_number = Some [], n_category = Some [], n_sub_category = Some [],
      n_micro_category = Some [], n_inferred_type = ''DEPOSIT'',
      n_inferred_counterparty = Some (Text ''Salary''), n_notes = None, n_created_at = now\<rparr>"

text \<open>A repository with that deposit and three rates, two of them from francs to euros.\<close>

definition example_database :: database where
  "example_database =
     \<lparr>transactions = [bound_row (example_tx 1700000000) [] ],
      fx_rates =
        [\<lparr>f_base = ''CHF'', f_quote = ''EUR'',
          f_valuation_date = \<lparr>year = 2024, month = 3, day = 28\<rparr>,
          f_rate = Finite 1.02, f_source = ''alpha_vantage''\<rparr>,
         \<lparr>f_base = ''CHF'', f_quote = ''EUR'',
          f_valuation_date = \<lparr>year = 2024, month = 4, day = 2\<rparr>,
          f_rate = Finite 1.05, f_source = ''alpha_vantage''\<rparr>,
         \<lparr>f_base = ''EUR'', f_quote = ''CHF'',
          f_valuation_date = \<lparr>year = 2024, month = 4, day = 5\<rparr>,
          f_rate = Finite 0.95, f_source = ''alpha_vantage''\<rparr>]\<rparr>"

section \<open>Facts about the Python values\<close>

lemmas str_defs = py_lower_def lower_char_def py_upper_def upper_char_def upper_letters_def
  lower_letters_def py_strip_def py_isspace_def whitespace_chars_def py_isdigit_def

lemmas dec_defs = parse_decimal_def normalise_separators_def Decimal_def float_of_decimal_def
  parse_number_def parse_exponent_def take_sign_def digits_value_def digit_value_def py_str_def
  signed_inf_def

lemma upper_chf_fixed: "py_upper ''CHF'' = ''CHF''"
  by (simp add: str_defs)

lemma upper_char_idem: "upper_char (upper_char c) = upper_char c"
  by (auto simp: upper_char_def upper_letters_def lower_letters_def)

lemma py_upper_idem: "py_upper (py_upper s) = py_upper s"
  by (simp add: py_upper_def upper_char_idem)

lemma py_replace_char_delete: "py_replace [a] [] s = filter (\<lambda>c. c \<noteq> a) s"
  by (induction s) auto

lemma py_replace_char_subst: "py_replace [a] [b] s = map (\<lambda>c. if c = a then b else c) s"
  by (induction s) auto

lemma or_zero_absent_as_zero: "or_zero x = (case x of None \<Rightarrow> Finite 0 | Some v \<Rightarrow> v)"
  by (simp add: or_zero_def float_truthy_def split: option.splits)

lemma float_truediv_nonzero: "y \<noteq> Finite 0 \<Longrightarrow> \<exists>v. float_truediv x y = Inr v"
  by (simp add: float_truediv_def)

section \<open>The normaliser\<close>

lemma amount_native_of_chf:
  "py_upper (currency_or_chf (transaction_currency r)) = ''CHF'' \<Longrightarrow> amount_native_of r = Inr None"
  by (cases "transaction_currency r")
     (auto simp: amount_native_of_def currency_or_chf_def split: if_splits)

lemma amount_native_of_no_rate:
  "fx_rate r = None \<or> fx_rate r = Some (Finite 0) \<Longrightarrow> amount_native_of r = Inr None"
  by (cases "transaction_currency r") (auto simp: amount_native_of_def float_truthy_def)

lemma amount_native_of_foreign:
  assumes "py_upper (currency_or_chf (transaction_currency r)) \<noteq> ''CHF''"
    and "fx_rate r = Some f" and "f \<noteq> Finite 0"
    and "float_truediv (signed_amount r) f = Inr v"
  shows "amount_native_of r = Inr (Some v)"
proof (cases "transaction_currency r")
  case None
  with assms(1) show ?thesis by (simp add: currency_or_chf_def upper_chf_fixed)
next
  case (Some cur)
  with assms(1) have "cur \<noteq> []" "py_upper cur \<noteq> ''CHF''"
    by (auto simp: currency_or_chf_def upper_chf_fixed split: if_splits)
  with Some assms(2-4) show ?thesis
    by (simp add: amount_native_of_def float_truthy_def)
qed

text \<open>The handler of \<^verbatim>\<open>ZeroDivisionError\<close> is never reached, and nothing else is raised.\<close>

lemma amount_native_of_total: "\<exists>a. amount_native_of r = Inr a"
proof (cases "py_upper (currency_or_chf (transaction_currency r)) = ''CHF''")
  case True
  then show ?thesis by (simp add: amount_native_of_chf)
next
  case foreign: False
  show ?thesis
  proof (cases "fx_rate r = None \<or> fx_rate r = Some (Finite 0)")
    case True
    then show ?thesis by (simp add: amount_native_of_no_rate)
  next
    case False
    then obtain f where f: "fx_rate r = Some f" "f \<noteq> Finite 0" by auto
    obtain v where "float_truediv (signed_amount r) f = Inr v"
      using float_truediv_nonzero [OF f(2)] by blast
    from amount_native_of_foreign [OF foreign f this] show ?thesis by blast
  qed
qed

lemma normalise_record_total:
  "\<exists>n. normalise_record now r c = Inr n \<and> n_id n = record_id r"
proof -
  obtain a where "amount_native_of r = Inr a"
    using amount_native_of_total by blast
  then show ?thesis by (simp add: normalise_record_def)
qed

text \<open>
  C2. For every raw record, normalisation succeeds and the signed CHF amount of the
  normalised transaction is the record's \<^verbatim>\<open>amount_chf\<close> when that is present, and
  otherwise credit minus debit in float arithmetic, an absent credit or debit counting as
  zero. This holds for any classification and any clock reading.
\<close>

theorem signed_chf_amount:
  "\<exists>n. normalise_record now r c = Inr n \<and>
       n_amount_chf n =
         (case amount_chf r of
            Some a \<Rightarrow> a
          | None \<Rightarrow> float_sub (case credit r of None \<Rightarrow> Finite 0 | Some x \<Rightarrow> x)
                              (case debit r of None \<Rightarrow> Finite 0 | Some x \<Rightarrow> x))"
proof -
  obtain a where a: "amount_native_of r = Inr a"
    using amount_native_of_total by blast
  show ?thesis
    by (simp add: normalise_record_def a signed_amount_def or_zero_absent_as_zero
             split: option.splits)
qed





section \<open>The classifier\<close>

lemma fee_rule_iff:
  "fee_rule r \<longleftrightarrow>
     py_in ''frais'' (py_lower (description r)) \<or> py_in ''fee'' (py_lower (description r)) \<or>
     py_in ''frais'' (py_lower (case category r of None \<Rightarrow> [] | Some t \<Rightarrow> t))"
  by (simp add: fee_rule_def or_empty_def Let_def)

lemma fee_row_fee: "py_in ''fee'' (py_lower (description fee_row))"
  by (simp add: fee_row_def default_record_def str_defs)

lemma is_inflow_credit:
  assumes "credit r = Some c" "float_gt_zero c" "debit r = None \<or> debit r = Some (Finite 0)"
  shows "is_inflow r"
proof -
  have "c \<noteq> Finite 0" using assms(2) by (auto simp: float_gt_zero_def)
  then have "or_zero (credit r) = c" by (simp add: or_zero_def float_truthy_def assms(1))
  moreover have "or_zero (debit r) = Finite 0"
    using assms(3) by (auto simp: or_zero_def float_truthy_def)
  ultimately show ?thesis using assms(2) by (simp add: is_inflow_def float_eq_zero_def)
qed

lemma blank_deposit_facts:
  "\<not> fee_rule blank_deposit_row" "is_inflow blank_deposit_row"
  "py_strip (split_first_comma (description blank_deposit_row)) = []"
  "inferred_type (classify blank_deposit_row) = ''DEPOSIT''"
  by (simp_all add: classify_def fee_rule_iff blank_deposit_row_def default_record_def str_defs
        is_inflow_def or_zero_def float_truthy_def float_gt_zero_def float_eq_zero_def
        split_first_comma_def)

text \<open>
  C6, as the code has it. A record whose lower-cased description contains \<^verbatim>\<open>frais\<close> or
  \<^verbatim>\<open>fee\<close>, or whose lower-cased category contains \<^verbatim>\<open>frais\<close>, is classified FEE with
  the account name as counterparty and the note \<^verbatim>\<open>Identified bank fee\<close>.
\<close>

theorem fee_classification:
  assumes "py_in ''frais'' (py_lower (description r)) \<or> py_in ''fee'' (py_lower (description r)) \<or>
     py_in ''frais'' (py_lower (case category r of None \<Rightarrow> [] | Some t \<Rightarrow> t))"
  shows "classify r =
     \<lparr>inferred_type = ''FEE'', inferred_counterparty = Some (account_name r),
      c_notes = Some ''Identified bank fee''\<rparr>"
  using assms by (simp add: classify_def fee_rule_iff)

theorem fee_classification_witness:
  "classify fee_row =
     \<lparr>inferred_type = ''FEE'', inferred_counterparty = Some (Text []),
      c_notes = Some ''Identified bank fee''\<rparr>"
  using fee_classification [of fee_row] fee_row_fee
  by (simp add: fee_row_def default_record_def)

text \<open>
  C6, as the claim has it, fails twice. The description of \<open>fee_row\<close> contains the keyword
  \<^verbatim>\<open>fee\<close>, and its classification carries a note. The category of \<open>fees_category_row\<close>
  contains the same keyword, and the record is not classified FEE: the condition of
  \<^verbatim>\<open>classify\<close> looks for \<^verbatim>\<open>frais\<close> and \<^verbatim>\<open>fee\<close> in the description and for \<^verbatim>\<open>frais\<close>
  alone in the category.
\<close>

theorem fee_claim_counterexample:
  "\<not> (py_in ''fee'' (py_lower (description fee_row)) \<longrightarrow>
        inferred_type (classify fee_row) = ''FEE'' \<and>
        inferred_counterparty (classify fee_row) = Some (account_name fee_row) \<and>
        c_notes (classify fee_row) = None) \<and>
   \<not> (py_in ''fee'' (py_lower (case category fees_category_row of None \<Rightarrow> [] | Some t \<Rightarrow> t))
          \<longrightarrow>
        inferred_type (classify fees_category_row) = ''FEE'' \<and>
        inferred_counterparty (classify fees_category_row) =
          Some (account_name fees_category_row) \<and>
        c_notes (classify fees_category_row) = None)"
proof
  show "\<not> (py_in ''fee'' (py_lower (description fee_row)) \<longrightarrow>
        inferred_type (classify fee_row) = ''FEE'' \<and>
        inferred_counterparty (classify fee_row) = Some (account_name fee_row) \<and>
        c_notes (classify fee_row) = None)"
    using fee_row_fee by (simp add: classify_def fee_rule_iff)
  have keyword: "py_in ''fee'' (py_lower (case category fees_category_row of None \<Rightarrow> [] | Some t \<Rightarrow> t))"
    by (simp add: fees_category_row_def default_record_def str_defs)
  have "inferred_type (classify fees_category_row) = ''DEPOSIT''"
    by (simp add: classify_def fee_rule_iff fees_category_row_def default_record_def str_defs
          is_inflow_def or_zero_def float_truthy_def float_gt_zero_def float_eq_zero_def)
  with keyword show "\<not> (py_in ''fee''
          (py_lower (case category fees_category_row of None \<Rightarrow> [] | Some t \<Rightarrow> t)) \<longrightarrow>
        inferred_type (classify fees_category_row) = ''FEE'' \<and>
        inferred_counterparty (classify fees_category_row) =
          Some (account_name fees_category_row) \<and>
        c_notes (classify fees_category_row) = None)"
    by simp
qed

text \<open>
  C7. \<^verbatim>\<open>classify\<close> has no failing branch: for every record its result is decided by the first
  rule that matches, in the order fee, inflow, outflow, fallback. In particular a record
  whose description contains a fee keyword, whose credit is positive and whose debit is
  zero or absent satisfies the inflow rule and is nevertheless classified FEE, not
  DEPOSIT.
\<close>

theorem classify_first_match:
  "inferred_type (classify r) =
     (if fee_rule r then ''FEE'' else if is_inflow r then ''DEPOSIT''
      else if is_outflow r then ''WITHDRAWAL'' else ''UNKNOWN'') \<and>
   ((py_in ''frais'' (py_lower (description r)) \<or> py_in ''fee'' (py_lower (description r))) \<and>
    (\<exists>c. credit r = Some c \<and> float_gt_zero c) \<and> (debit r = None \<or> debit r = Some (Finite 0))
    \<longrightarrow> is_inflow r \<and> inferred_type (classify r) = ''FEE'' \<and>
        inferred_type (classify r) \<noteq> ''DEPOSIT'')"
  by (auto simp: classify_def fee_rule_iff intro: is_inflow_credit)

theorem classify_first_match_witness:
  "is_inflow fee_row \<and> inferred_type (classify fee_row) = ''FEE'' \<and>
   inferred_type (classify fee_row) \<noteq> ''DEPOSIT''"
proof -
  have "credit fee_row = Some (Finite 5)" "float_gt_zero (Finite 5)" "debit fee_row = None"
    by (simp_all add: fee_row_def default_record_def float_gt_zero_def)
  then show ?thesis
    using classify_first_match [of fee_row] fee_row_fee by blast
qed

text \<open>
  C10. When the fee rule fires the counterparty is the account name as it is, so an empty
  account name gives the empty string and not an absent counterparty. When the inflow or
  the outflow rule decides and the text before the first comma of the description is
  empty after stripping, the counterparty is absent.
\<close>

theorem fee_counterparty_verbatim:
  "(fee_rule r \<longrightarrow> inferred_counterparty (classify r) = Some (account_name r)) \<and>
   (fee_rule r \<and> account_name r = Text [] \<longrightarrow>
      inferred_counterparty (classify r) = Some (Text []) \<and>
      inferred_counterparty (classify r) \<noteq> None) \<and>
   (\<not> fee_rule r \<and> (is_inflow r \<or> is_outflow r) \<and>
    py_strip (split_first_comma (description r)) = [] \<longrightarrow>
      inferred_counterparty (classify r) = None)"
  by (auto simp: classify_def extract_counterparty_def)

theorem fee_counterparty_verbatim_witness:
  "inferred_counterparty (classify fee_row) = Some (Text []) \<and>
   inferred_type (classify blank_deposit_row) = ''DEPOSIT'' \<and>
   inferred_counterparty (classify blank_deposit_row) = None"
proof -
  have "fee_rule fee_row" using fee_row_fee by (simp add: fee_rule_iff)
  moreover have "account_name fee_row = Text []"
    by (simp add: fee_row_def default_record_def)
  ultimately show ?thesis
    using fee_counterparty_verbatim [of fee_row] fee_counterparty_verbatim [of blank_deposit_row]
      blank_deposit_facts by blast
qed

section \<open>The field parsers\<close>

lemma normalise_separators_eq:
  "normalise_separators s =
     map (\<lambda>c. if c = CHR '','' then CHR ''.'' else c)
         (filter (\<lambda>c. c \<noteq> CHR 0x27 \<and> c \<noteq> CHR '' '') s)"
  by (simp add: normalise_separators_def py_replace_char_delete py_replace_char_subst conj_commute)

lemma Decimal_error: "Decimal s = Inl e \<Longrightarrow> e = InvalidOperation"
  by (auto simp: Decimal_def split: prod.splits if_splits option.splits)

lemma float_of_decimal_error: "float_of_decimal d = Inl e \<Longrightarrow> e = ValueError"
  by (cases d) (auto simp: float_of_decimal_def)

lemma parse_decimal_text:
  "py_strip (py_str v) \<noteq> [] \<Longrightarrow>
   parse_decimal (Some v) =
     Inr (case Decimal (normalise_separators (py_strip (py_str v))) of
            Inl e \<Rightarrow> None
          | Inr d \<Rightarrow> (case float_of_decimal d of Inl e \<Rightarrow> None | Inr x \<Rightarrow> Some x))"
  by (auto simp: parse_decimal_def Let_def split: sum.splits
        dest: Decimal_error float_of_decimal_error)

lemma parse_decimal_total: "\<exists>r. parse_decimal v = Inr r"
proof (cases v)
  case None
  then show ?thesis by (simp add: parse_decimal_def)
next
  case (Some c)
  show ?thesis
  proof (cases "py_strip (py_str c) = []")
    case True
    with Some show ?thesis by (simp add: parse_decimal_def)
  next
    case False
    with Some show ?thesis by (simp add: parse_decimal_text)
  qed
qed

lemma parse_date_token:
  "py_strip (py_str v) \<in> {[], ''NaT'', ''nan''} \<Longrightarrow> parse_date P (Some v) = Inr None"
  by (auto simp: parse_date_def)

lemma parse_date_call:
  assumes "documented_errors_only P" "py_strip (py_str v) \<notin> {[], ''NaT'', ''nan''}"
  shows "parse_date P (Some v) =
     Inr (case P True (py_replace ''[$]'' [] (py_strip (py_str v))) of
            Inl e \<Rightarrow> None
          | Inr parsed \<Rightarrow> Some (dt_date parsed))"
proof (cases "P True (py_replace ''[$]'' [] (py_strip (py_str v)))")
  case (Inl e)
  with assms(1) have "e = ValueError \<or> e = OverflowError"
    by (simp add: documented_errors_only_def)
  with Inl assms(2) show ?thesis by (auto simp: parse_date_def Let_def)
next
  case (Inr parsed)
  with assms(2) show ?thesis by (simp add: parse_date_def Let_def)
qed

lemma parse_date_total:
  assumes "documented_errors_only P"
  shows "\<exists>r. parse_date P v = Inr r"
proof (cases v)
  case None
  then show ?thesis by (simp add: parse_date_def)
next
  case (Some c)
  show ?thesis
  proof (cases "py_strip (py_str c) \<in> {[], ''NaT'', ''nan''}")
    case True
    from parse_date_token [OF this] Some show ?thesis by blast
  next
    case False
    from parse_date_call [OF assms this] Some show ?thesis by blast
  qed
qed

lemma example_date_parser_documented: "documented_errors_only example_date_parser"
  by (auto simp: documented_errors_only_def example_date_parser_def Let_def split: if_splits)

lemma example_date_parser_dayfirst:
  "example_date_parser True ''03.04.2024'' =
     Inr \<lparr>dt_date = \<lparr>year = 2024, month = 4, day = 3\<rparr>, dt_seconds = 0\<rparr>"
  by (simp add: example_date_parser_def str_defs digits_value_def digit_value_def)

text \<open>
  C8 fails on the code. An empty cell of the sheet reaches \<^verbatim>\<open>_parse_decimal\<close> as the NaN of
  pandas, whose text is \<^verbatim>\<open>nan\<close>. That text is not empty, \<^verbatim>\<open>Decimal\<close> accepts it, and the
  result is the float NaN, a present value and not an absent one; the text \<^verbatim>\<open>nan\<close> itself
  gives the same. \<^verbatim>\<open>_parse_date\<close> returns an absent value for that cell, and so does
  \<^verbatim>\<open>_parse_decimal\<close> for the empty string.
\<close>

theorem parse_decimal_blank_cell:
  "parse_decimal (Some Blank) = Inr (Some NaN) \<and>
   parse_decimal (Some (Text ''nan'')) = Inr (Some NaN) \<and>
   parse_date example_date_parser (Some Blank) = Inr None \<and>
   parse_decimal (Some (Text [])) = Inr None"
proof (intro conjI)
  show "parse_decimal (Some Blank) = Inr (Some NaN)"
    by (simp add: dec_defs str_defs)
  show "parse_decimal (Some (Text ''nan'')) = Inr (Some NaN)"
    by (simp add: dec_defs str_defs)
  have "py_strip (py_str Blank) = ''nan''"
    by (simp add: str_defs py_str_def)
  then show "parse_date example_date_parser (Some Blank) = Inr None"
    by (simp add: parse_date_token)
  show "parse_decimal (Some (Text [])) = Inr None"
    by (simp add: dec_defs str_defs)
qed

text \<open>
  C9. With a date parsing library that raises only the exceptions it documents,
  \<^verbatim>\<open>_parse_date\<close> returns for every cell, present or not, and never raises. A missing cell
  and the texts \<^verbatim>\<open>NaT\<close>, \<^verbatim>\<open>nan\<close> and the empty one (after stripping) give an absent value
  without the library being asked. Any other text goes to the library with
  \<^verbatim>\<open>dayfirst=True\<close>, once \<^verbatim>\<open>[$]\<close> is removed; the result is the date of what the library
  returns, and an absent value when the library raises.
\<close>

theorem parse_date_tolerant:
  assumes "documented_errors_only P"
  shows "(\<exists>r. parse_date P cell_value = Inr r) \<and>
    parse_date P None = Inr None \<and>
    (py_strip (py_str v) \<in> {[], ''NaT'', ''nan''} \<longrightarrow> parse_date P (Some v) = Inr None) \<and>
    (py_strip (py_str v) \<notin> {[], ''NaT'', ''nan''} \<longrightarrow>
       parse_date P (Some v) =
         Inr (case P True (py_replace ''[$]'' [] (py_strip (py_str v))) of
                Inl e \<Rightarrow> None
              | Inr parsed \<Rightarrow> Some (dt_date parsed)))"
  using parse_date_total [OF assms, of cell_value] parse_date_token [of v P]
    parse_date_call [OF assms, of v]
  by (simp add: parse_date_def)

theorem parse_date_tolerant_witness:
  "documented_errors_only example_date_parser \<and>
   parse_date example_date_parser (Some (Text ''03.04.2024'')) =
     Inr (Some \<lparr>year = 2024, month = 4, day = 3\<rparr>) \<and>
   parse_date example_date_parser (Some (Text ''NaT'')) = Inr None \<and>
   parse_date example_date_parser (Some Blank) = Inr None \<and>
   parse_date example_date_parser (Some (Text ''next week'')) = Inr None"
proof -
  have a: "py_strip (py_str (Text ''03.04.2024'')) = ''03.04.2024''"
    "py_strip (py_str (Text ''NaT'')) = ''NaT''"
    "py_strip (py_str Blank) = ''nan''"
    "py_strip (py_str (Text ''next week'')) = ''next week''"
    by (simp_all add: str_defs py_str_def)
  have b: "example_date_parser True ''next week'' = Inl ValueError"
    by (simp add: example_date_parser_def)
  show ?thesis
    using parse_date_tolerant [OF example_date_parser_documented, of None "Text ''03.04.2024''"]
      parse_date_tolerant [OF example_date_parser_documented, of None "Text ''NaT''"]
      parse_date_tolerant [OF example_date_parser_documented, of None Blank]
      parse_date_tolerant [OF example_date_parser_documented, of None "Text ''next week''"]
    by (simp add: a b example_date_parser_dayfirst example_date_parser_documented)
qed

section \<open>The repository\<close>

lemma do_update_set_excluded: "t_id old = t_id new \<Longrightarrow> do_update_set old new = new"
  by (simp add: do_update_set_def)

lemma insert_on_conflict_update_present:
  "t_id new \<in> t_id ` set table \<Longrightarrow>
   insert_on_conflict_update new table = map (\<lambda>old. if t_id old = t_id new then new else old) table"
  by (auto simp: insert_on_conflict_update_def list_ex_iff do_update_set_excluded)

lemma insert_on_conflict_update_absent:
  "t_id new \<notin> t_id ` set table \<Longrightarrow> insert_on_conflict_update new table = table @ [new]"
  by (force simp: insert_on_conflict_update_def list_ex_iff image_iff)

lemma insert_on_conflict_update_ids:
  "map t_id (insert_on_conflict_update new table) =
     (if t_id new \<in> t_id ` set table then map t_id table else map t_id table @ [t_id new])"
proof (cases "t_id new \<in> t_id ` set table")
  case True
  have "map t_id (map (\<lambda>old. if t_id old = t_id new then new else old) table) = map t_id table"
    by (induction table) auto
  with True show ?thesis by (simp add: insert_on_conflict_update_present)
next
  case False
  then show ?thesis by (simp add: insert_on_conflict_update_absent)
qed



lemma bound_row_id: "t_id (bound_row tx p) = n_id tx"
  by (simp add: bound_row_def)




lemma date_le_total: "date_le a b \<or> date_le b a"
  by (auto simp: date_le_def)

lemma date_le_trans: "date_le a b \<Longrightarrow> date_le b c \<Longrightarrow> date_le a c"
  by (auto simp: date_le_def)

lemma date_le_refl: "date_le a a"
  by (simp add: date_le_def)

lemma latest_row_None: "latest_row rs = None \<longleftrightarrow> rs = []"
  by (cases rs) (auto split: option.splits)

lemma latest_row_Some:
  "latest_row rs = Some b \<Longrightarrow>
   b \<in> set rs \<and> (\<forall>r \<in> set rs. date_le (f_valuation_date r) (f_valuation_date b))"
proof (induction rs arbitrary: b)
  case Nil
  then show ?case by simp
next
  case (Cons r rs)
  show ?case
  proof (cases "latest_row rs")
    case None
    then have "rs = []" by (simp add: latest_row_None)
    with Cons.prems show ?thesis by (simp add: date_le_refl)
  next
    case (Some m)
    note IH = Cons.IH [OF Some]
    show ?thesis
    proof (cases "date_le (f_valuation_date m) (f_valuation_date r)")
      case True
      with Some Cons.prems have "b = r" by simp
      with IH True show ?thesis
        by (auto simp: date_le_refl intro: date_le_trans)
    next
      case False
      with Some Cons.prems have "b = m" by simp
      moreover from False have "date_le (f_valuation_date r) (f_valuation_date m)"
        using date_le_total by blast
      ultimately show ?thesis using IH by auto
    qed
  qed
qed

lemma get_latest_fx_rate_None:
  "get_latest_fx_rate db base quote = None \<longleftrightarrow>
     \<not> (\<exists>r \<in> set (fx_rates db). f_base r = py_upper base \<and> f_quote r = py_upper quote)"
proof -
  let ?m = "filter (\<lambda>r. f_base r = py_upper base \<and> f_quote r = py_upper quote) (fx_rates db)"
  have "get_latest_fx_rate db base quote = None \<longleftrightarrow> latest_row ?m = None"
    by (simp add: get_latest_fx_rate_def split: option.splits)
  also have "\<dots> \<longleftrightarrow> ?m = []" by (rule latest_row_None)
  also have "\<dots> \<longleftrightarrow>
      \<not> (\<exists>r \<in> set (fx_rates db). f_base r = py_upper base \<and> f_quote r = py_upper quote)"
    by (simp add: filter_empty_conv)
  finally show ?thesis .
qed

lemma get_latest_fx_rate_Some:
  assumes "get_latest_fx_rate db base quote = Some x"
  shows "\<exists>r \<in> set (fx_rates db). f_base r = py_upper base \<and> f_quote r = py_upper quote \<and>
           f_rate r = x \<and>
           (\<forall>r' \<in> set (fx_rates db). f_base r' = py_upper base \<and> f_quote r' = py_upper quote \<longrightarrow>
               date_le (f_valuation_date r') (f_valuation_date r))"
proof -
  let ?m = "filter (\<lambda>r. f_base r = py_upper base \<and> f_quote r = py_upper quote) (fx_rates db)"
  from assms obtain b where b: "latest_row ?m = Some b" "f_rate b = x"
    by (auto simp: get_latest_fx_rate_def split: option.splits)
  from latest_row_Some [OF b(1)] b(2) show ?thesis by auto
qed

text \<open>
  C5. For every repository and every display currency \<^verbatim>\<open>cash_summary\<close> returns a summary
  with the CHF total and the number of transactions. If the currency is CHF after
  upper-casing, the display total is the CHF total, labelled CHF, and the flag is false.
  Otherwise, if no rate from CHF to the upper-cased currency is stored, the display total is
  the unconverted CHF total, labelled with the upper-cased currency, and the flag is true;
  and if one is stored, the display total is the CHF total times the rate of a stored row
  whose valuation date no other such row exceeds, and the flag is false.
\<close>

theorem cash_summary_conversion:
  "s_total_chf (cash_summary db cur) = total_chf_of db \<and>
   s_transaction_count (cash_summary db cur) = length (transactions db) \<and>
   (py_upper cur = ''CHF'' \<longrightarrow>
      s_display_currency (cash_summary db cur) = ''CHF'' \<and>
      s_display_total (cash_summary db cur) = total_chf_of db \<and>
      \<not> s_fx_missing (cash_summary db cur)) \<and>
   (py_upper cur \<noteq> ''CHF'' \<and>
    \<not> (\<exists>r \<in> set (fx_rates db). f_base r = ''CHF'' \<and> f_quote r = py_upper cur) \<longrightarrow>
      s_display_currency (cash_summary db cur) = py_upper cur \<and>
      s_display_total (cash_summary db cur) = total_chf_of db \<and>
      s_fx_missing (cash_summary db cur)) \<and>
   (py_upper cur \<noteq> ''CHF'' \<and>
    (\<exists>r \<in> set (fx_rates db). f_base r = ''CHF'' \<and> f_quote r = py_upper cur) \<longrightarrow>
      (\<exists>r \<in> set (fx_rates db). f_base r = ''CHF'' \<and> f_quote r = py_upper cur \<and>
         (\<forall>r' \<in> set (fx_rates db). f_base r' = ''CHF'' \<and> f_quote r' = py_upper cur \<longrightarrow>
             date_le (f_valuation_date r') (f_valuation_date r)) \<and>
         s_display_currency (cash_summary db cur) = py_upper cur \<and>
         s_display_total (cash_summary db cur) = float_mul (total_chf_of db) (f_rate r) \<and>
         \<not> s_fx_missing (cash_summary db cur)))"
proof -
  let ?look = "get_latest_fx_rate db ''CHF'' (py_upper cur)"
  have none_iff: "?look = None \<longleftrightarrow>
      \<not> (\<exists>r \<in> set (fx_rates db). f_base r = ''CHF'' \<and> f_quote r = py_upper cur)"
    by (simp add: get_latest_fx_rate_None upper_chf_fixed py_upper_idem)
  have fixed: "s_total_chf (cash_summary db cur) = total_chf_of db"
    "s_transaction_count (cash_summary db cur) = length (transactions db)"
    by (simp_all add: cash_summary_def Let_def split: option.splits)
  have home: "s_display_currency (cash_summary db cur) = ''CHF'' \<and>
      s_display_total (cash_summary db cur) = total_chf_of db \<and>
      \<not> s_fx_missing (cash_summary db cur)" if "py_upper cur = ''CHF''"
    using that by (simp add: cash_summary_def Let_def)
  have missing: "s_display_currency (cash_summary db cur) = py_upper cur \<and>
      s_display_total (cash_summary db cur) = total_chf_of db \<and>
      s_fx_missing (cash_summary db cur)"
    if "py_upper cur \<noteq> ''CHF''" "?look = None"
    using that by (simp add: cash_summary_def Let_def)
  have found: "\<exists>r \<in> set (fx_rates db). f_base r = ''CHF'' \<and> f_quote r = py_upper cur \<and>
         (\<forall>r' \<in> set (fx_rates db). f_base r' = ''CHF'' \<and> f_quote r' = py_upper cur \<longrightarrow>
             date_le (f_valuation_date r') (f_valuation_date r)) \<and>
         s_display_currency (cash_summary db cur) = py_upper cur \<and>
         s_display_total (cash_summary db cur) = float_mul (total_chf_of db) (f_rate r) \<and>
         \<not> s_fx_missing (cash_summary db cur)"
    if "py_upper cur \<noteq> ''CHF''" "?look \<noteq> None"
  proof -
    from that(2) obtain x where x: "?look = Some x" by auto
    from get_latest_fx_rate_Some [OF x] obtain r where r: "r \<in> set (fx_rates db)"
      "f_base r = ''CHF''" "f_quote r = py_upper cur" "f_rate r = x"
      "\<forall>r' \<in> set (fx_rates db). f_base r' = ''CHF'' \<and> f_quote r' = py_upper cur \<longrightarrow>
               date_le (f_valuation_date r') (f_valuation_date r)"
      by (auto simp: upper_chf_fixed py_upper_idem)
    have "s_display_currency (cash_summary db cur) = py_upper cur \<and>
         s_display_total (cash_summary db cur) = float_mul (total_chf_of db) (f_rate r) \<and>
         \<not> s_fx_missing (cash_summary db cur)"
      using that(1) x r(4) by (simp add: cash_summary_def Let_def)
    with r show ?thesis by blast
  qed
  show ?thesis
    using fixed home missing found none_iff by blast
qed

lemma example_total: "total_chf_of example_database = Finite 100"
  by (simp add: total_chf_of_def sql_sum_def example_database_def bound_row_def example_tx_def
        sql_real_def List.map_filter_simps)

lemma example_uppers:
  "py_upper ''chf'' = ''CHF''" "py_upper ''usd'' = ''USD''" "py_upper ''eur'' = ''EUR''"
  by (simp_all add: str_defs)

theorem cash_summary_conversion_witness:
  "s_display_currency (cash_summary example_database ''chf'') = ''CHF'' \<and>
   s_display_total (cash_summary example_database ''chf'') = Finite 100 \<and>
   \<not> s_fx_missing (cash_summary example_database ''chf'') \<and>
   s_display_currency (cash_summary example_database ''usd'') = ''USD'' \<and>
   s_display_total (cash_summary example_database ''usd'') = Finite 100 \<and>
   s_fx_missing (cash_summary example_database ''usd'') \<and>
   s_display_currency (cash_summary example_database ''eur'') = ''EUR'' \<and>
   s_display_total (cash_summary example_database ''eur'') = Finite 105 \<and>
   \<not> s_fx_missing (cash_summary example_database ''eur'')"
proof -
  have home: "s_display_currency (cash_summary example_database ''chf'') = ''CHF'' \<and>
      s_display_total (cash_summary example_database ''chf'') = Finite 100 \<and>
      \<not> s_fx_missing (cash_summary example_database ''chf'')"
    using cash_summary_conversion [of example_database "''chf''"]
    by (simp add: example_uppers example_total)
  have no_usd: "\<not> (\<exists>r \<in> set (fx_rates example_database). f_base r = ''CHF'' \<and> f_quote r = ''USD'')"
    by (simp add: example_database_def)
  have an_eur: "\<exists>r \<in> set (fx_rates example_database). f_base r = ''CHF'' \<and> f_quote r = ''EUR''"
    by (simp add: example_database_def)
  have missing: "s_display_currency (cash_summary example_database ''usd'') = ''USD'' \<and>
      s_display_total (cash_summary example_database ''usd'') = Finite 100 \<and>
      s_fx_missing (cash_summary example_database ''usd'')"
    using cash_summary_conversion [of example_database "''usd''"] no_usd
    by (simp add: example_uppers example_total)
  have "\<exists>r \<in> set (fx_rates example_database). f_base r = ''CHF'' \<and> f_quote r = ''EUR'' \<and>
         (\<forall>r' \<in> set (fx_rates example_database). f_base r' = ''CHF'' \<and> f_quote r' = ''EUR'' \<longrightarrow>
             date_le (f_valuation_date r') (f_valuation_date r)) \<and>
         s_display_currency (cash_summary example_database ''eur'') = ''EUR'' \<and>
         s_display_total (cash_summary example_database ''eur'') =
           float_mul (Finite 100) (f_rate r) \<and>
         \<not> s_fx_missing (cash_summary example_database ''eur'')"
    using cash_summary_conversion [of example_database "''eur''"] an_eur
    by (simp add: example_uppers example_total)
  then obtain r where r: "r \<in> set (fx_rates example_database)"
      "f_base r = ''CHF''" "f_quote r = ''EUR''"
      "\<forall>r' \<in> set (fx_rates example_database). f_base r' = ''CHF'' \<and> f_quote r' = ''EUR'' \<longrightarrow>
             date_le (f_valuation_date r') (f_valuation_date r)"
    and s: "s_display_currency (cash_summary example_database ''eur'') = ''EUR''"
      "s_display_total (cash_summary example_database ''eur'') = float_mul (Finite 100) (f_rate r)"
      "\<not> s_fx_missing (cash_summary example_database ''eur'')"
    by blast
  from r have "f_rate r = Finite 1.05"
    by (auto simp: example_database_def date_le_def)
  with s have "s_display_currency (cash_summary example_database ''eur'') = ''EUR'' \<and>
      s_display_total (cash_summary example_database ''eur'') = Finite 105 \<and>
      \<not> s_fx_missing (cash_summary example_database ''eur'')"
    by (simp add: float_mul_def)
  with home missing show ?thesis by blast
qed

section \<open>Importing a workbook\<close>

lemma make_record_total:
  assumes "documented_errors_only P"
  shows "\<exists>r. make_record P u sheet row = Inr r \<and> record_id r = u"
proof -
  obtain d1 where d1: "parse_date P (map_of row ''transac_date'') = Inr d1"
    using parse_date_total [OF assms] by blast
  obtain d2 where d2: "parse_date P (map_of row ''accounting_date'') = Inr d2"
    using parse_date_total [OF assms] by blast
  obtain a where a: "parse_decimal (map_of row ''amount_chf'') = Inr a"
    using parse_decimal_total by blast
  obtain b where b: "parse_decimal (map_of row ''debit'') = Inr b"
    using parse_decimal_total by blast
  obtain c where c: "parse_decimal (map_of row ''credit'') = Inr c"
    using parse_decimal_total by blast
  obtain d where d: "parse_decimal (map_of row ''balance'') = Inr d"
    using parse_decimal_total by blast
  obtain e where e: "parse_decimal (map_of row ''rate'') = Inr e"
    using parse_decimal_total by blast
  show ?thesis
    by (simp add: make_record_def bind_result_def d1 d2 a b c d e Let_def)
qed

text \<open>Each row extracted takes the next UUID that the process draws.\<close>

lemma load_rows_fresh:
  assumes "documented_errors_only (w_date_parser w)"
  shows "\<exists>new lk'. load_rows w sheet rows (txs, lk, k) = Inr (txs @ new, lk', k + length rows) \<and>
           map n_id new = map (w_uuid4 w) [k..<k + length rows]"
proof (induction rows arbitrary: txs lk k)
  case Nil
  then show ?case by simp
next
  case (Cons row rows)
  obtain r where r: "make_record (w_date_parser w) (w_uuid4 w k) sheet row = Inr r"
    "record_id r = w_uuid4 w k"
    using make_record_total [OF assms] by blast
  obtain n where n: "normalise_record (w_utcnow w k) r (classify r) = Inr n" "n_id n = record_id r"
    using normalise_record_total by blast
  from Cons.IH [of "txs @ [n]" "lk(record_id r \<mapsto> raw_payload r)" "Suc k"]
  obtain new lk' where step:
    "load_rows w sheet rows (txs @ [n], lk(record_id r \<mapsto> raw_payload r), Suc k) =
       Inr ((txs @ [n]) @ new, lk', Suc k + length rows)"
    "map n_id new = map (w_uuid4 w) [Suc k..<Suc k + length rows]"
    by blast
  have "load_rows w sheet (row # rows) (txs, lk, k) =
      Inr (txs @ (n # new), lk', k + length (row # rows))"
    using step(1) by (simp add: r n)
  moreover have "[k..<k + length (row # rows)] = k # [Suc k..<Suc k + length rows]"
    by (subst upt_conv_Cons) simp_all
  then have "map n_id (n # new) = map (w_uuid4 w) [k..<k + length (row # rows)]"
    by (simp only: list.map n r step(2))
  ultimately show ?case by blast
qed

lemma load_sheets_fresh:
  assumes "documented_errors_only (w_date_parser w)"
    and "set sheets \<subseteq> dom (map_of wb)"
  shows "\<exists>new lk'. load_sheets w wb sheets (txs, lk, k) =
             Inr (txs @ new, lk', k + rows_of wb sheets) \<and>
           map n_id new = map (w_uuid4 w) [k..<k + rows_of wb sheets]"
  using assms(2)
proof (induction sheets arbitrary: txs lk k)
  case Nil
  then show ?case by (simp add: rows_of_def)
next
  case (Cons sheet sheets)
  then obtain rows where rows: "map_of wb sheet = Some rows" by auto
  let ?df = "map (map (\<lambda>(column, c). (py_strip column, c))) rows"
  have ls: "load_sheet wb sheet = Inr ?df" by (simp add: load_sheet_def rows)
  from load_rows_fresh [OF assms(1), of sheet ?df txs lk k]
  obtain new1 lk1 where one:
    "load_rows w sheet ?df (txs, lk, k) = Inr (txs @ new1, lk1, k + length rows)"
    "map n_id new1 = map (w_uuid4 w) [k..<k + length rows]"
    by auto
  from Cons.prems have "set sheets \<subseteq> dom (map_of wb)" by simp
  from Cons.IH [OF this, of "txs @ new1" lk1 "k + length rows"]
  obtain new2 lk2 where two:
    "load_sheets w wb sheets (txs @ new1, lk1, k + length rows) =
       Inr ((txs @ new1) @ new2, lk2, k + length rows + rows_of wb sheets)"
    "map n_id new2 = map (w_uuid4 w) [k + length rows..<k + length rows + rows_of wb sheets]"
    by blast
  have total: "rows_of wb (sheet # sheets) = length rows + rows_of wb sheets"
    by (simp add: rows_of_def rows)
  have "load_sheets w wb (sheet # sheets) (txs, lk, k) =
      Inr (txs @ (new1 @ new2), lk2, k + rows_of wb (sheet # sheets))"
    by (simp add: ls one two total add.assoc)
  moreover have "map n_id (new1 @ new2) = map (w_uuid4 w) [k..<k + rows_of wb (sheet # sheets)]"
  proof -
    have "[k..<k + (length rows + rows_of wb sheets)] =
        [k..<k + length rows] @ [k + length rows..<k + length rows + rows_of wb sheets]"
      by (metis add.assoc le_add1 upt_add_eq_append)
    then show ?thesis by (simp add: one(2) two(2) total)
  qed
  ultimately show ?case by blast
qed

lemma upsert_transactions_fresh:
  "distinct (map n_id txs) \<Longrightarrow> set (map n_id txs) \<inter> t_id ` set (transactions db) = {} \<Longrightarrow>
   map t_id (transactions (upsert_transactions txs lk db)) =
     map t_id (transactions db) @ map n_id txs"
proof (induction txs arbitrary: db)
  case Nil
  then show ?case by simp
next
  case (Cons tx txs)
  let ?new = "bound_row tx (lookup_payload lk (n_id tx))"
  let ?db = "db\<lparr>transactions := insert_on_conflict_update ?new (transactions db)\<rparr>"
  from Cons.prems(2) have absent: "t_id ?new \<notin> t_id ` set (transactions db)"
    by (auto simp: bound_row_id)
  then have ids: "map t_id (transactions ?db) = map t_id (transactions db) @ [n_id tx]"
    by (simp add: insert_on_conflict_update_ids bound_row_id)
  have "t_id ` set (transactions ?db) = set (map t_id (transactions ?db))" by simp
  also have "\<dots> = insert (n_id tx) (t_id ` set (transactions db))"
    unfolding ids by simp
  finally have "set (map n_id txs) \<inter> t_id ` set (transactions ?db) = {}"
    using Cons.prems by auto
  moreover from Cons.prems(1) have "distinct (map n_id txs)" by simp
  ultimately have "map t_id (transactions (upsert_transactions txs lk ?db)) =
      map t_id (transactions ?db) @ map n_id txs"
    by (rule Cons.IH [rotated])
  with ids show ?case by simp
qed

text \<open>
  Two imports of one workbook into a new repository, with UUIDs that never repeat: the
  second import stores every row again.
\<close>

lemma import_twice_doubles:
  assumes "documented_errors_only (w_date_parser w)" "inj (w_uuid4 w)"
    and "set sheets \<subseteq> dom (map_of wb)"
  shows "\<exists>st1 st2.
      import_workbook w wb sheets \<lparr>repository = initial_database, extracted = 0\<rparr> =
        Inr (rows_of wb sheets, st1) \<and>
      import_workbook w wb sheets st1 = Inr (rows_of wb sheets, st2) \<and>
      length (transactions (repository st1)) = rows_of wb sheets \<and>
      length (transactions (repository st2)) = 2 * rows_of wb sheets"
proof -
  let ?n = "rows_of wb sheets"
  from load_sheets_fresh [OF assms(1,3), of "[]" Map.empty 0]
  obtain new1 lk1 where one: "load w wb sheets 0 = Inr (new1, lk1, ?n)"
    "map n_id new1 = map (w_uuid4 w) [0..<?n]"
    by (auto simp: load_def)
  let ?db1 = "upsert_transactions new1 lk1 initial_database"
  let ?st1 = "\<lparr>repository = ?db1, extracted = ?n\<rparr>"
  have len1: "length new1 = ?n"
    using one(2) by (metis length_map length_upt diff_zero)
  have d1: "distinct (map n_id new1)"
    unfolding one(2) using assms(2) by (simp add: distinct_map inj_on_def inj_def)
  have ids1: "map t_id (transactions ?db1) = map (w_uuid4 w) [0..<?n]"
    using upsert_transactions_fresh [OF d1, of initial_database lk1]
    by (simp add: initial_database_def one(2))
  have first: "import_workbook w wb sheets \<lparr>repository = initial_database, extracted = 0\<rparr> =
      Inr (?n, ?st1)"
    by (simp add: import_workbook_def one(1) len1)
  from load_sheets_fresh [OF assms(1,3), of "[]" Map.empty ?n]
  obtain new2 lk2 where two: "load w wb sheets ?n = Inr (new2, lk2, ?n + ?n)"
    "map n_id new2 = map (w_uuid4 w) [?n..<?n + ?n]"
    by (auto simp: load_def)
  let ?db2 = "upsert_transactions new2 lk2 ?db1"
  let ?st2 = "\<lparr>repository = ?db2, extracted = ?n + ?n\<rparr>"
  have len2: "length new2 = ?n"
    using two(2) by (metis length_map length_upt add_diff_cancel_left')
  have d2: "distinct (map n_id new2)"
    unfolding two(2) using assms(2) by (simp add: distinct_map inj_on_def inj_def)
  have "w_uuid4 w i \<noteq> w_uuid4 w j" if "i < ?n" "?n \<le> j" for i j
    using injD [OF assms(2), of i j] that by auto
  then have "set (map n_id new2) \<inter> set (map t_id (transactions ?db1)) = {}"
    unfolding two(2) ids1 by fastforce
  then have "set (map n_id new2) \<inter> t_id ` set (transactions ?db1) = {}" by simp
  from upsert_transactions_fresh [OF d2 this, of lk2]
  have ids2: "map t_id (transactions ?db2) = map t_id (transactions ?db1) @ map n_id new2" .
  have second: "import_workbook w wb sheets ?st1 = Inr (?n, ?st2)"
    by (simp add: import_workbook_def two(1) len2)
  have "length (transactions ?db1) = ?n"
    using ids1 by (metis length_map length_upt diff_zero)
  moreover have "length (transactions ?db2) = 2 * ?n"
    using ids2 ids1 len2 by (metis length_append length_map length_upt diff_zero mult_2)
  ultimately show ?thesis using first second by auto
qed

lemma example_world_facts:
  "documented_errors_only (w_date_parser example_world)" "inj (w_uuid4 example_world)"
  "set [''stocks_transac''] \<subseteq> dom (map_of example_workbook)"
  "rows_of example_workbook [''stocks_transac''] = 1"
  by (simp_all add: example_world_def example_date_parser_documented inj_def
        example_workbook_def rows_of_def)

text \<open>
  C1 fails on the code. The example workbook has one sheet with one row. Imported into a
  new repository it leaves one transaction; imported again, unchanged, it leaves two,
  since the row is extracted under a new UUID each time.
\<close>

theorem reimport_stores_rows_again:
  "\<exists>st1 st2.
      import_workbook example_world example_workbook [''stocks_transac'']
        \<lparr>repository = initial_database, extracted = 0\<rparr> = Inr (1, st1) \<and>
      import_workbook example_world example_workbook [''stocks_transac''] st1 = Inr (1, st2) \<and>
      length (transactions (repository st1)) = 1 \<and>
      length (transactions (repository st2)) = 2"
  using import_twice_doubles [OF example_world_facts(1,2,3)]
  by (simp add: example_world_facts(4))

end
